theory Spec2Isabelle
  imports Main "HOL-Library.Sublist"
begin

section \<open>JavaScript values used by the script\<close>

text \<open>
  The script createAFLabApp.js handles strings, \<open>undefined\<close> (a prompt that was
  cancelled, a key missing from an object) and, through the prototype chain of the
  object literal \<open>packageDependencies\<close>, the members inherited from
  \<open>Object.prototype\<close>.  \<open>Native t\<close> is such a member; \<open>t\<close> is the text that string
  conversion gives for it under V8, the engine of Node.  Strings are \<open>char list\<close>;
  the script's own literals are ASCII.
\<close>

datatype jsval = Undefined | Str string | Native string

fun jsToString :: "jsval \<Rightarrow> string" where
  "jsToString Undefined = ''undefined''"
| "jsToString (Str s) = s"
| "jsToString (Native t) = t"

text \<open>Truthiness: \<open>undefined\<close> and the empty string are falsy, objects are truthy.\<close>

fun truthy :: "jsval \<Rightarrow> bool" where
  "truthy Undefined = False"
| "truthy (Str s) = (s \<noteq> [])"
| "truthy (Native t) = True"

text \<open>
  \<open>Array.prototype.join\<close>: an \<open>undefined\<close> element gives the empty string, every
  other element its string conversion; the separator stands between elements.
\<close>

fun joinElement :: "jsval \<Rightarrow> string" where
  "joinElement Undefined = []"
| "joinElement v = jsToString v"

fun jsJoin :: "string \<Rightarrow> jsval list \<Rightarrow> string" where
  "jsJoin sep [] = []"
| "jsJoin sep [v] = joinElement v"
| "jsJoin sep (v # u # vs) = joinElement v @ sep @ jsJoin sep (u # vs)"

text \<open>\<open>String.prototype.split\<close> with a one-character separator.\<close>

fun jsSplit :: "char \<Rightarrow> string \<Rightarrow> string list" where
  "jsSplit c [] = [[]]"
| "jsSplit c (x # xs) =
     (if x = c then [] # jsSplit c xs
      else (case jsSplit c xs of [] \<Rightarrow> [[x]] | w # ws \<Rightarrow> (x # w) # ws))"

section \<open>The dependency table and the install command\<close>

text \<open>
  What a property read on a plain object literal finds when the key is not one of the
  object's own: the twelve members of \<open>Object.prototype\<close>, otherwise \<open>undefined\<close>.
\<close>

definition nativeFunction :: "string \<Rightarrow> jsval" where
  "nativeFunction name = Native (''function '' @ name @ ''() { [native code] }'')"

definition objectPrototypeKeys :: "string list" where
  "objectPrototypeKeys =
     [''constructor'', ''__defineGetter__'', ''__defineSetter__'', ''hasOwnProperty'',
      ''__lookupGetter__'', ''__lookupSetter__'', ''isPrototypeOf'',
      ''propertyIsEnumerable'', ''toString'', ''valueOf'', ''__proto__'',
      ''toLocaleString'']"

definition objectPrototype :: "string \<Rightarrow> jsval" where
  "objectPrototype k =
     (if k = ''constructor'' then nativeFunction ''Object''
      else if k = ''__proto__'' then Native ''[object Object]''
      else if k \<in> set objectPrototypeKeys then nativeFunction k
      else Undefined)"

text \<open>
  \<open>const packageDependencies = { chakraui: ..., tailwindcss: ..., prisma: 'prisma',
  supabase: '' }\<close>, read as \<open>packageDependencies[k]\<close>.
\<close>

definition packageDependencies :: "string \<Rightarrow> jsval" where
  "packageDependencies k =
     (if k = ''chakraui'' then
        Str ''@chakra-ui/react @emotion/react@^11 @emotion/styled@^11 framer-motion@^6''
      else if k = ''tailwindcss'' then Str ''tailwindcss postcss autoprefixer''
      else if k = ''prisma'' then Str ''prisma''
      else if k = ''supabase'' then Str ''''
      else objectPrototype k)"

text \<open>\<open>return packageDependencies[cssStyleFramework] || ''\<close>; the key is the
  argument's string conversion.\<close>

definition getCssDependencies :: "jsval \<Rightarrow> jsval" where
  "getCssDependencies cssStyleFramework =
     (let v = packageDependencies (jsToString cssStyleFramework)
      in if truthy v then v else Str '''')"

text \<open>
  \<open>getBackendServicesDependencies\<close>: the empty string when the argument is
  \<open>undefined\<close> (\<open>None\<close>) or an empty array, otherwise
  \<open>backendServices.reduce((deps, service) => deps.concat(packageDependencies[service]), '')\<close>.
  \<open>String.prototype.concat\<close> converts its argument to a string.
\<close>

definition getBackendServicesDependencies :: "string list option \<Rightarrow> string" where
  "getBackendServicesDependencies backendServices =
     (case backendServices of
        None \<Rightarrow> ''''
      | Some services \<Rightarrow>
          if length services = 0 then ''''
          else foldl (\<lambda>deps service. deps @ jsToString (packageDependencies service))
                 '''' services)"

text \<open>
  \<open>getInstallCommand\<close>.  The \<open>switch\<close> compares with \<open>===\<close>; the cases
  \<open>'yarn'\<close> and \<open>'pnpm'\<close> share one body, which returns the \<open>add\<close> command when
  \<open>!dependencies && dependencies !== ' '\<close> and otherwise falls through to the
  \<open>'npm'\<close>/\<open>default\<close> body.  The same function, with one more \<open>console.log\<close>,
  is in the earlier revision of the script.
\<close>

definition getInstallCommand :: "jsval \<Rightarrow> string \<Rightarrow> string" where
  "getInstallCommand packageManager dependencies =
     (if (packageManager = Str ''yarn'' \<or> packageManager = Str ''pnpm'')
         \<and> (\<not> truthy (Str dependencies) \<and> dependencies \<noteq> '' '')
      then jsToString packageManager @ '' add '' @ dependencies
      else jsToString packageManager @ '' install '' @ dependencies)"

text \<open>
  The dependency string of \<open>installDependencies\<close>:
  \<open>[cssStyleDependencies, backendDependencies].join(' ')\<close>.
\<close>

definition allDependencies :: "jsval \<Rightarrow> string list option \<Rightarrow> string" where
  "allDependencies cssStyling backendServices =
     jsJoin '' ''
       [getCssDependencies cssStyling,
        Str (getBackendServicesDependencies backendServices)]"

section \<open>Paths and the disk\<close>

text \<open>
  A path is the list of its components below the root (POSIX separators).
  \<open>path.join\<close> joins its arguments with the separator and normalises the result:
  empty and \<open>.\<close> components disappear, \<open>..\<close> removes the component before it.
\<close>

type_synonym path = "string list"

definition normalizeStep :: "path \<Rightarrow> string \<Rightarrow> path" where
  "normalizeStep acc c =
     (if c = '''' \<or> c = ''.'' then acc
      else if c = ''..'' then butlast acc
      else acc @ [c])"

definition normalize :: "string list \<Rightarrow> path" where
  "normalize cs = foldl normalizeStep [] cs"

definition pathJoin :: "path \<Rightarrow> string \<Rightarrow> path" where
  "pathJoin dir name = normalize (dir @ jsSplit CHR ''/'' name)"


text \<open>The path as the string that is spliced into the \<open>git clone\<close> command.\<close>

definition pathString :: "path \<Rightarrow> string" where
  "pathString p = (if p = [] then ''/'' else concat (map (\<lambda>c. ''/'' @ c) p))"

text \<open>
  The disk is the list of the entries (files and directories) on it.  A path exists
  when an entry lies at it or below it.  \<open>fs.rmSync(p, { recursive: true })\<close>
  removes every entry at or below \<open>p\<close>; without the \<open>force\<close> option it throws when
  \<open>p\<close> does not exist.  Failures of the operating system (permissions, a directory
  in use) are outside the model.
\<close>

type_synonym disk = "path list"

definition existsSync :: "disk \<Rightarrow> path \<Rightarrow> bool" where
  "existsSync d p = list_ex (prefix p) d"

definition rmRecursive :: "path \<Rightarrow> disk \<Rightarrow> disk option" where
  "rmRecursive p d =
     (if existsSync d p then Some (filter (\<lambda>q. \<not> prefix p q) d) else None)"

section \<open>The process, its collaborators and its state\<close>

text \<open>
  What the script reads from outside: the Node version, the command line, the
  verdict of \<open>validate-npm-package-name\<close>, the result of each child process run by
  \<open>execSync\<close> (whether it exits with status 0, and the disk it leaves), and the
  answers of the \<open>prompts\<close> library.  A prompt offers fixed choices, so an answer is
  one of them, or \<open>undefined\<close> (\<open>None\<close>) when the prompt was cancelled.
\<close>

datatype packageManagerChoice = Pnpm | Npm | Yarn
datatype cssChoice = Skip | ChakraUI
datatype backendChoice = Prisma | Supabase

fun packageManagerValue :: "packageManagerChoice option \<Rightarrow> jsval" where
  "packageManagerValue None = Undefined"
| "packageManagerValue (Some Pnpm) = Str ''pnpm''"
| "packageManagerValue (Some Npm) = Str ''npm''"
| "packageManagerValue (Some Yarn) = Str ''yarn''"

fun cssValue :: "cssChoice option \<Rightarrow> jsval" where
  "cssValue None = Undefined"
| "cssValue (Some Skip) = Str ''none''"
| "cssValue (Some ChakraUI) = Str ''chakraui''"

fun backendValue :: "backendChoice \<Rightarrow> string" where
  "backendValue Prisma = ''prisma''"
| "backendValue Supabase = ''supabase''"

record validation =
  validForNewPackages :: bool
  errors :: "string list option"
  warnings :: "string list option"

record world =
  nodeVersion :: string
  argv :: "string list"
  workingDirectory :: path
  initialDisk :: disk
  validate :: "string \<Rightarrow> validation"
  shell :: "string \<Rightarrow> disk \<Rightarrow> bool \<times> disk"
  answerPackageManager :: "packageManagerChoice option"
  answerCssStyling :: "cssChoice option"
  answerBackendServices :: "backendChoice list option"
  answerIsCreateSupabaseProject :: bool
  answerProjectName :: jsval

text \<open>
  What a step can throw: a child process that fails, a file-system call on a path
  that does not exist, a method call on \<open>undefined\<close>.
\<close>

datatype error = CommandFailed string | ENOENT path | TypeError

text \<open>
  The effects that are recorded, in order: child processes, file-system calls, the
  call of the name validator, the diagnostics written to the console, and the
  \<open>console.error(chalk.red(err))\<close> of the top-level handler (banner and progress
  lines are not recorded, colours are left out).
\<close>

datatype event =
    Exec string
  | RmSync path
  | Chdir path
  | ExistsSync path
  | Validate string
  | Console string
  | ConsoleError error

text \<open>The script's module-level variables, the disk and the working directory.\<close>

record state =
  fs :: disk
  cwd :: path
  trace :: "event list"
  projectName :: string
  projectPath :: path
  isCurrentDir :: bool
  selectedPackageManager :: jsval
  selectedBackendServices :: "string list option"

definition initialState :: "world \<Rightarrow> state" where
  "initialState w =
     \<lparr>fs = initialDisk w, cwd = workingDirectory w, trace = [],
      projectName = '''', projectPath = [], isCurrentDir = False,
      selectedPackageManager = Undefined, selectedBackendServices = None\<rparr>"

text \<open>
  A step ends normally, by \<open>process.exit(n)\<close>, or by throwing.  \<open>process.exit\<close>
  ends the process at once; only a throw is seen by \<open>try\<close>/\<open>catch\<close>.
\<close>

datatype status = Normal | Exit nat | Thrown error

type_synonym step = "state \<Rightarrow> status \<times> state"

fun seqs :: "step list \<Rightarrow> step" where
  "seqs [] s = (Normal, s)"
| "seqs (f # rest) s = (case f s of (Normal, s') \<Rightarrow> seqs rest s' | r \<Rightarrow> r)"

definition tryCatch :: "step \<Rightarrow> (error \<Rightarrow> step) \<Rightarrow> step" where
  "tryCatch body handler s =
     (case body s of (Thrown err, s') \<Rightarrow> handler err s' | r \<Rightarrow> r)"

definition skip :: step where
  "skip s = (Normal, s)"

definition emit :: "event list \<Rightarrow> state \<Rightarrow> state" where
  "emit es s = s\<lparr>trace := trace s @ es\<rparr>"

text \<open>\<open>execSync(cmd)\<close>: runs the child to completion; throws when it fails.\<close>

definition execSync :: "world \<Rightarrow> string \<Rightarrow> step" where
  "execSync w cmd s =
     (case shell w cmd (fs s) of
        (ok, d) \<Rightarrow>
          (if ok then Normal else Thrown (CommandFailed cmd),
           (emit [Exec cmd] s)\<lparr>fs := d\<rparr>))"

text \<open>\<open>fs.rmSync(p, { recursive: true })\<close> as a step.\<close>

definition rmSync :: "path \<Rightarrow> step" where
  "rmSync p s =
     (case rmRecursive p (fs s) of
        None \<Rightarrow> (Thrown (ENOENT p), emit [RmSync p] s)
      | Some d \<Rightarrow> (Normal, (emit [RmSync p] s)\<lparr>fs := d\<rparr>))"

section \<open>The steps of the script\<close>

text \<open>
  \<open>validateNodeVersion\<close> compares \<open>semver[0]\<close>, a string, with the number 14: the
  string is converted to a number first.  The conversion is modelled on strings of
  decimal digits (the empty string is 0), which is what the components of
  \<open>process.versions.node\<close> are; every other string is \<open>NaN\<close> here, and the
  statements below about the version check assume a major component of digits.
  A comparison with \<open>NaN\<close> is false.
\<close>

datatype jsnum = NaN | Num nat

definition isDigit :: "char \<Rightarrow> bool" where
  "isDigit c = (c \<in> set ''0123456789'')"

definition decimalValue :: "string \<Rightarrow> nat" where
  "decimalValue s = foldl (\<lambda>n c. 10 * n + (of_char c - 48)) 0 s"

fun toNumber :: "jsval \<Rightarrow> jsnum" where
  "toNumber (Str s) = (if list_all isDigit s then Num (decimalValue s) else NaN)"
| "toNumber v = NaN"

fun lessThan :: "jsnum \<Rightarrow> nat \<Rightarrow> bool" where
  "lessThan NaN k = False"
| "lessThan (Num n) k = (n < k)"

definition majorOf :: "string \<Rightarrow> jsval" where
  "majorOf currentNodeVersion =
     (case jsSplit CHR ''.'' currentNodeVersion of [] \<Rightarrow> Undefined | m # _ \<Rightarrow> Str m)"

definition unsupportedNodeMessage :: "string \<Rightarrow> string" where
  "unsupportedNodeMessage currentNodeVersion =
     ''You are running Node '' @ currentNodeVersion @ ''.'' @ [CHR 0x0A]
     @ ''Create Airfoil Next App requires Node 14 or higher. '' @ [CHR 0x0A]
     @ ''Please update your version of Node.''"

definition validateNodeVersion :: "world \<Rightarrow> step" where
  "validateNodeVersion w s =
     (let currentNodeVersion = nodeVersion w;
          major = majorOf currentNodeVersion
      in if lessThan (toNumber major) 14 then
           (Exit 1, emit [Console (unsupportedNodeMessage currentNodeVersion)] s)
         else (Normal, s))"

definition validateAppName :: "world \<Rightarrow> step" where
  "validateAppName w s =
     (if length (argv w) < 3 then
        (Exit 1,
         emit [Console ''You have to provide a name to your app.'',
               Console ''For example :'',
               Console '' npx create-af-app my-app''] s)
      else
        let name = argv w ! 2;
            s1 = s\<lparr>projectName := name\<rparr>
        in if name = ''.'' then (Normal, s1\<lparr>isCurrentDir := True\<rparr>)
           else
             let validationResult = validate w name;
                 s2 = emit [Validate name] s1
             in if \<not> validForNewPackages validationResult then
                  (Exit 1,
                   emit ([Console (''Cannot create a project named '' @ name
                            @ '' due to npm naming restrictions.''),
                          Console ''Please fix the errors below: '']
                         @ (case errors validationResult of
                              None \<Rightarrow> []
                            | Some es \<Rightarrow> map (\<lambda>err. Console ('' - '' @ err)) es)
                         @ (case warnings validationResult of
                              None \<Rightarrow> []
                            | Some ws \<Rightarrow> map (\<lambda>warning. Console ('' - '' @ warning)) ws)) s2)
                else (Normal, s2))"

definition setProjectPath :: step where
  "setProjectPath s = (Normal, s\<lparr>projectPath := pathJoin (cwd s) (projectName s)\<rparr>)"

text \<open>\<open>if (!isCurrentDir && fs.existsSync(projectPath))\<close>: the disk is only asked
  when the first conjunct holds.\<close>

definition validateProjectPath :: step where
  "validateProjectPath s =
     (if \<not> isCurrentDir s then
        let s1 = emit [ExistsSync (projectPath s)] s
        in if existsSync (fs s) (projectPath s) then
             (Exit 1,
              emit [Console
                ''Directory already exist, please choose another directory or project name''] s1)
           else (Normal, s1)
      else (Normal, s))"

definition GITHUB_REPO :: string where
  "GITHUB_REPO = ''https://github.com/tzeweiwee/airfoil-labs-nextjs-template.git''"

definition cloneCommand :: "path \<Rightarrow> string" where
  "cloneCommand p = ''git clone --depth 1 '' @ GITHUB_REPO @ '' '' @ pathString p"

definition cloneRepo :: "world \<Rightarrow> step" where
  "cloneRepo w s = execSync w (cloneCommand (projectPath s)) s"

text \<open>\<open>process.chdir(projectPath)\<close> throws when the directory does not exist.\<close>

definition chdir :: "path \<Rightarrow> step" where
  "chdir p s =
     (if existsSync (fs s) p then (Normal, (emit [Chdir p] s)\<lparr>cwd := p\<rparr>)
      else (Thrown (ENOENT p), emit [Chdir p] s))"

definition installDependencies :: "world \<Rightarrow> step" where
  "installDependencies w s =
     (let packageManager = packageManagerValue (answerPackageManager w);
          cssStyling = cssValue (answerCssStyling w);
          backendServices = map_option (map backendValue) (answerBackendServices w);
          s1 = s\<lparr>selectedPackageManager := packageManager,
                 selectedBackendServices := backendServices\<rparr>
      in execSync w
           (getInstallCommand packageManager (allDependencies cssStyling backendServices)) s1)"

text \<open>
  \<open>postInstall\<close>.  \<open>backendServices.includes(...)\<close> throws a \<open>TypeError\<close> when the
  multiselect prompt was cancelled and \<open>backendServices\<close> is \<open>undefined\<close>.
\<close>

definition postInstall :: "world \<Rightarrow> step" where
  "postInstall w s =
     (let isCreateSupabaseProject = answerIsCreateSupabaseProject w;
          packageManager = jsToString (selectedPackageManager s)
      in case selectedBackendServices s of
           None \<Rightarrow> (Thrown TypeError, s)
         | Some backendServices \<Rightarrow>
             seqs
              [if ''prisma'' \<in> set backendServices
               then execSync w (packageManager @ '' run init:prisma'') else skip,
               if ''supabase'' \<in> set backendServices
               then execSync w (packageManager @ '' run init:supabase'') else skip,
               if isCreateSupabaseProject
               then seqs
                     [execSync w ''npx supabase login'',
                      execSync w ''npx supabase projects list'',
                      execSync w (''npx supabase projects create ''
                                  @ jsToString (answerProjectName w) @ '' -i'')]
               else skip] s)"

text \<open>\<open>fs.rmSync('./.git', ...)\<close>: a relative path is resolved against the working
  directory of the process.\<close>

definition cleanUp :: step where
  "cleanUp s = rmSync (pathJoin (cwd s) ''./.git'') s"

definition deleteDirectory :: step where
  "deleteDirectory s = rmSync (projectPath s) s"

definition startUp :: step where
  "startUp s = (Normal, s)"

definition success :: step where
  "success s = (Normal, s)"

text \<open>
  \<open>init\<close>: the pre-flight checks, then one \<open>try\<close> block from the clone to the success
  banner, whose handler prints the error and deletes the project directory.
\<close>

definition tryBlock :: "world \<Rightarrow> step" where
  "tryBlock w =
     seqs [cloneRepo w,
           (\<lambda>s. chdir (projectPath s) s),
           installDependencies w,
           postInstall w,
           cleanUp,
           success]"

definition catchBlock :: "error \<Rightarrow> step" where
  "catchBlock err = seqs [(\<lambda>s. (Normal, emit [ConsoleError err] s)), deleteDirectory]"

definition init :: "world \<Rightarrow> status \<times> state" where
  "init w =
     seqs [startUp,
           validateNodeVersion w,
           validateAppName w,
           setProjectPath,
           validateProjectPath,
           tryCatch (tryBlock w) catchBlock] (initialState w)"

text \<open>
  The exit code of the process: the argument of \<open>process.exit\<close>, or 0 when \<open>init()\<close>
  completes and nothing is left to run.  An exception that escapes \<open>init()\<close> is an
  unhandled promise rejection, whose exit code depends on the Node release; it is
  not given a code here.
\<close>

fun exitCode :: "status \<Rightarrow> nat option" where
  "exitCode Normal = Some 0"
| "exitCode (Exit n) = Some n"
| "exitCode (Thrown err) = None"

section \<open>Parts of a run\<close>

text \<open>
  Names for the segments of \<open>init\<close> that the statements below speak about: the
  pre-flight checks, the steps of the \<open>try\<close> block after the clone, the steps of
  the \<open>try\<close> block up to the installation of the dependencies, and those after it.
\<close>

definition preflight :: "world \<Rightarrow> status \<times> state" where
  "preflight w =
     seqs [startUp, validateNodeVersion w, validateAppName w, setProjectPath,
           validateProjectPath] (initialState w)"


definition throughInstall :: "world \<Rightarrow> step" where
  "throughInstall w =
     seqs [cloneRepo w, (\<lambda>s. chdir (projectPath s) s), installDependencies w]"

definition afterInstall :: "world \<Rightarrow> step" where
  "afterInstall w = seqs [postInstall w, cleanUp, success]"

text \<open>The major version as a string, and whether the version check lets it pass.\<close>

definition majorString :: "world \<Rightarrow> string" where
  "majorString w = takeWhile (\<lambda>c. c \<noteq> CHR ''.'') (nodeVersion w)"

definition supportedNode :: "world \<Rightarrow> bool" where
  "supportedNode w = (\<not> lessThan (toNumber (majorOf (nodeVersion w))) 14)"

text \<open>The commands of a run, as the script builds them from the answers.\<close>

definition installCommandOf :: "world \<Rightarrow> string" where
  "installCommandOf w =
     getInstallCommand (packageManagerValue (answerPackageManager w))
       (allDependencies (cssValue (answerCssStyling w))
          (map_option (map backendValue) (answerBackendServices w)))"

definition prismaCommandOf :: "world \<Rightarrow> string" where
  "prismaCommandOf w =
     jsToString (packageManagerValue (answerPackageManager w)) @ '' run init:prisma''"

section \<open>The dependency string as the specification words it\<close>

text \<open>
  The static table as the specification describes it: each choice is mapped to its
  package list, an unknown choice or \<open>none\<close> to the empty string; the dependency
  string is the concatenation of the entry of the CSS choice and of the entries of
  the backend choices.
\<close>

definition specTableEntry :: "string \<Rightarrow> string" where
  "specTableEntry choice =
     (if choice = ''chakraui'' then
        ''@chakra-ui/react @emotion/react@^11 @emotion/styled@^11 framer-motion@^6''
      else if choice = ''tailwindcss'' then ''tailwindcss postcss autoprefixer''
      else if choice = ''prisma'' then ''prisma''
      else if choice = ''supabase'' then ''''
      else '''')"

definition specDependencyString :: "string \<Rightarrow> string list \<Rightarrow> string" where
  "specDependencyString css backends =
     specTableEntry css @ concat (map specTableEntry backends)"

definition tableKeys :: "string list" where
  "tableKeys = [''chakraui'', ''tailwindcss'', ''prisma'', ''supabase'']"

section \<open>Example runs\<close>

text \<open>
  A run in \<open>/home/u\<close> on Node 18 with one positional argument: the clone
  succeeds and leaves two entries, every later child process fails unless it is
  listed in \<open>succeeding\<close>.
\<close>

definition clonedEntries :: "path \<Rightarrow> disk" where
  "clonedEntries p = [p @ [''.git''], p @ [''package.json'']]"

definition exampleShell :: "string list \<Rightarrow> path \<Rightarrow> string \<Rightarrow> disk \<Rightarrow> bool \<times> disk" where
  "exampleShell succeeding p cmd d =
     (if cmd = cloneCommand p then (True, d @ clonedEntries p)
      else (cmd \<in> set succeeding, d))"

definition exampleWorld :: "string \<Rightarrow> string list \<Rightarrow> world" where
  "exampleWorld arg succeeding =
     \<lparr>nodeVersion = ''18.12.0'',
      argv = [''node'', ''create-af-app'', arg],
      workingDirectory = [''home'', ''u''],
      initialDisk = [[''home'', ''u'', ''notes.txt'']],
      validate = (\<lambda>name. \<lparr>validForNewPackages = True, errors = None, warnings = None\<rparr>),
      shell = exampleShell succeeding (pathJoin [''home'', ''u''] arg),
      answerPackageManager = Some Npm,
      answerCssStyling = Some Skip,
      answerBackendServices = Some [Prisma],
      answerIsCreateSupabaseProject = False,
      answerProjectName = Undefined\<rparr>"




section \<open>Sequencing\<close>

lemma seqs_single: "seqs [f] s = f s"
  by (simp split: prod.splits status.splits)

lemma seqs_append:
  "seqs (xs @ ys) s = (case seqs xs s of (Normal, s') \<Rightarrow> seqs ys s' | r \<Rightarrow> r)"
  by (induction xs arbitrary: s) (simp_all split: prod.splits status.splits)

lemma seqs_preserves:
  assumes "\<And>f s. f \<in> set steps \<Longrightarrow> P s \<Longrightarrow> P (snd (f s))" and "P s"
  shows "P (snd (seqs steps s))"
  using assms
proof (induction steps arbitrary: s)
  case Nil
  then show ?case by simp
next
  case (Cons f steps)
  have step: "P (snd (f s))"
    using Cons.prems by simp
  show ?case
  proof (cases "f s")
    case (Pair st s')
    with step have "P s'" by simp
    then have "P (snd (seqs steps s'))"
      using Cons.IH Cons.prems(1) by simp
    with Pair \<open>P s'\<close> show ?thesis
      by (cases st) simp_all
  qed
qed

lemma seqs_keeps:
  assumes "\<And>f s. f \<in> set steps \<Longrightarrow> g (snd (f s)) = g s"
  shows "g (snd (seqs steps s)) = g s"
  using seqs_preserves[where P = "\<lambda>t. g t = g s" and steps = steps and s = s] assms
  by simp

lemma seqs_extends:
  assumes "\<And>f s. f \<in> set steps \<Longrightarrow> prefix (trace s) (trace (snd (f s)))"
  shows "prefix (trace s) (trace (snd (seqs steps s)))"
proof (rule seqs_preserves[where P = "\<lambda>t. prefix (trace s) (trace t)"])
  show "prefix (trace s) (trace s)" by simp
next
  fix f and t :: state
  assume "f \<in> set steps" and "prefix (trace s) (trace t)"
  then show "prefix (trace s) (trace (snd (f t)))"
    using assms[of f t] by (meson prefix_order.trans)
qed

section \<open>What each step changes\<close>

lemma execSync_trace: "trace (snd (execSync w cmd s)) = trace s @ [Exec cmd]"
  by (simp add: execSync_def emit_def split: prod.splits)


lemma rmSync_trace: "trace (snd (rmSync p s)) = trace s @ [RmSync p]"
  by (simp add: rmSync_def emit_def split: option.splits)






lemma skip_snd: "snd (skip s) = s"
  by (simp add: skip_def)







section \<open>The handler of the try block\<close>

lemma catchBlock_eq: "catchBlock e s = rmSync (projectPath s) (emit [ConsoleError e] s)"
  by (simp add: catchBlock_def deleteDirectory_def emit_def split: prod.splits status.splits)

lemma catchBlock_trace:
  "trace (snd (catchBlock e s)) = trace s @ [ConsoleError e, RmSync (projectPath s)]"
  by (simp add: catchBlock_eq rmSync_trace emit_def)


lemma init_preflight:
  "init w = (case preflight w of (Normal, s) \<Rightarrow> tryCatch (tryBlock w) catchBlock s | r \<Rightarrow> r)"
proof -
  have "init w = seqs ([startUp, validateNodeVersion w, validateAppName w, setProjectPath,
           validateProjectPath] @ [tryCatch (tryBlock w) catchBlock]) (initialState w)"
    by (simp add: init_def)
  also have "\<dots> = (case preflight w of (Normal, s) \<Rightarrow> tryCatch (tryBlock w) catchBlock s | r \<Rightarrow> r)"
    unfolding seqs_append preflight_def
    by (simp only: seqs_single)
  finally show ?thesis .
qed

lemma init_thrown:
  assumes "preflight w = (Normal, s0)" and "tryBlock w s0 = (Thrown e, s2)"
  shows "init w = catchBlock e s2"
  using assms by (simp add: init_preflight tryCatch_def)

section \<open>Rollback\<close>





section \<open>The exit code after a caught failure\<close>

text \<open>
  Claim C3.  The claim asks for exit code 1 whenever the top-level handler catches
  an exception.  In the example run the clone succeeds and \<open>npm install\<close> fails: the
  handler prints the error, deletes the project directory and returns, nothing calls
  \<open>process.exit\<close>, and the process ends with exit code 0.
\<close>

theorem caught_failure_exits_with_zero:
  "exitCode (fst (init (exampleWorld ''my-app'' []))) = Some 0
   \<and> trace (snd (init (exampleWorld ''my-app'' []))) =
       [Validate ''my-app'', ExistsSync [''home'', ''u'', ''my-app''],
        Exec (cloneCommand [''home'', ''u'', ''my-app'']),
        Chdir [''home'', ''u'', ''my-app''],
        Exec ''npm install  prisma'',
        ConsoleError (CommandFailed ''npm install  prisma''),
        RmSync [''home'', ''u'', ''my-app'']]"
  by code_simp

section \<open>The pre-flight checks\<close>

lemma jsSplit_head: "\<exists>rest. jsSplit c v = takeWhile (\<lambda>x. x \<noteq> c) v # rest"
  by (induction v) auto

lemma majorOf_eq: "majorOf v = Str (takeWhile (\<lambda>x. x \<noteq> CHR ''.'') v)"
  using jsSplit_head[of "CHR ''.''" v] by (auto simp: majorOf_def)



lemma preflight_unsupported:
  "\<not> supportedNode w \<Longrightarrow>
   preflight w = (Exit 1, emit [Console (unsupportedNodeMessage (nodeVersion w))] (initialState w))"
  by (simp add: preflight_def startUp_def validateNodeVersion_def supportedNode_def Let_def)

lemma init_unsupported:
  "\<not> supportedNode w \<Longrightarrow>
   init w = (Exit 1, emit [Console (unsupportedNodeMessage (nodeVersion w))] (initialState w))"
  using preflight_unsupported[of w] by (simp add: init_preflight)






text \<open>
  Claim C7.  For a version string whose major component consists of decimal
  digits, \<open>validateNodeVersion\<close> exits with code 1 exactly when the major version is
  below 14 and otherwise continues with the state unchanged; when it exits, the
  whole run consists of the one diagnostic on the console: the disk is untouched
  and nothing is deleted.
\<close>

theorem node_version_gate:
  assumes "list_all isDigit (majorString w)"
  shows "(fst (validateNodeVersion w s) = Exit 1 \<longleftrightarrow> decimalValue (majorString w) < 14)
       \<and> (14 \<le> decimalValue (majorString w) \<longrightarrow> validateNodeVersion w s = (Normal, s))
       \<and> (decimalValue (majorString w) < 14 \<longrightarrow>
            init w = (Exit 1, emit [Console (unsupportedNodeMessage (nodeVersion w))]
                               (initialState w)))"
proof -
  have num: "toNumber (majorOf (nodeVersion w)) = Num (decimalValue (majorString w))"
    using assms by (simp add: majorOf_eq majorString_def)
  have "decimalValue (majorString w) < 14 \<Longrightarrow> \<not> supportedNode w"
    by (simp add: supportedNode_def num)
  then show ?thesis
    using init_unsupported[of w]
    by (auto simp: validateNodeVersion_def Let_def num)
qed

theorem node_version_gate_witness:
  "list_all isDigit (majorString (exampleWorld ''my-app'' []))
   \<and> decimalValue (majorString (exampleWorld ''my-app'' [])) = 18
   \<and> validateNodeVersion (exampleWorld ''my-app'' []) (initialState (exampleWorld ''my-app'' []))
       = (Normal, initialState (exampleWorld ''my-app'' []))
   \<and> list_all isDigit (majorString ((exampleWorld ''my-app'' [])\<lparr>nodeVersion := ''12.22.1''\<rparr>))
   \<and> decimalValue (majorString ((exampleWorld ''my-app'' [])\<lparr>nodeVersion := ''12.22.1''\<rparr>)) = 12
   \<and> init ((exampleWorld ''my-app'' [])\<lparr>nodeVersion := ''12.22.1''\<rparr>) =
       (Exit 1, emit [Console (unsupportedNodeMessage ''12.22.1'')]
                  (initialState ((exampleWorld ''my-app'' [])\<lparr>nodeVersion := ''12.22.1''\<rparr>)))"
proof -
  let ?w = "exampleWorld ''my-app'' []"
  let ?v = "(exampleWorld ''my-app'' [])\<lparr>nodeVersion := ''12.22.1''\<rparr>"
  have h1: "list_all isDigit (majorString ?w)" by code_simp
  have h2: "decimalValue (majorString ?w) = 18" by code_simp
  have g1: "list_all isDigit (majorString ?v)" by code_simp
  have g2: "decimalValue (majorString ?v) = 12" by code_simp
  have g3: "nodeVersion ?v = ''12.22.1''" by simp
  show ?thesis
    using h1 h2 g1 g2 g3 node_version_gate[OF h1, of "initialState ?w"] node_version_gate[OF g1, of "initialState ?v"]
    by simp
qed



section \<open>The dependency string and the install command\<close>

lemma foldl_append_concat:
  "foldl (\<lambda>deps service. deps @ f service) acc xs = acc @ concat (map f xs)"
  by (induction xs arbitrary: acc) simp_all

lemma packageDependencies_own:
  "k \<in> set tableKeys \<Longrightarrow> jsToString (packageDependencies k) = specTableEntry k"
  by (auto simp: tableKeys_def packageDependencies_def specTableEntry_def)

lemma getCssDependencies_entry:
  "css \<notin> set objectPrototypeKeys \<Longrightarrow> getCssDependencies (Str css) = Str (specTableEntry css)"
  by (simp add: getCssDependencies_def packageDependencies_def specTableEntry_def
      objectPrototype_def objectPrototypeKeys_def Let_def)

lemma concat_entries:
  "set xs \<subseteq> set tableKeys \<Longrightarrow>
   concat (map (\<lambda>k. jsToString (packageDependencies k)) xs) = concat (map specTableEntry xs)"
  by (induction xs) (simp_all add: packageDependencies_own)

lemma getBackendServicesDependencies_entries:
  "set backends \<subseteq> set tableKeys \<Longrightarrow>
   getBackendServicesDependencies (Some backends) = concat (map specTableEntry backends)"
  by (cases backends)
     (simp_all add: getBackendServicesDependencies_def foldl_append_concat concat_entries
        packageDependencies_own del: foldl_Cons)

lemma getCssDependencies_defined: "getCssDependencies css \<noteq> Undefined"
  by (cases "packageDependencies (jsToString css)") (simp_all add: getCssDependencies_def Let_def)

lemma allDependencies_join:
  "allDependencies css bs =
     jsToString (getCssDependencies css) @ '' '' @ getBackendServicesDependencies bs"
  using getCssDependencies_defined[of css]
  by (cases "getCssDependencies css") (simp_all add: allDependencies_def)

lemma installCommandOf_eq:
  "installCommandOf w =
     jsToString (packageManagerValue (answerPackageManager w)) @ '' install ''
     @ allDependencies (cssValue (answerCssStyling w))
         (map_option (map backendValue) (answerBackendServices w))"
  by (simp add: installCommandOf_def getInstallCommand_def allDependencies_join)

lemma installDependencies_trace:
  "trace (snd (installDependencies w s)) = trace s @ [Exec (installCommandOf w)]"
  by (simp add: installDependencies_def installCommandOf_def Let_def execSync_trace)

text \<open>
  Claim C2.  The claim asks for the \<open>add\<close> verb when the dependency string is
  non-empty and for the bare \<open>install\<close> verb otherwise.  For \<open>yarn\<close> and \<open>pnpm\<close> the
  function does the opposite: a non-empty dependency string gives the \<open>install\<close>
  command, the empty string gives the \<open>add\<close> command with nothing to add.
\<close>

theorem getInstallCommand_verbs_inverted:
  "getInstallCommand (Str ''yarn'') ''prisma'' = ''yarn install prisma''
   \<and> getInstallCommand (Str ''pnpm'') ''prisma'' = ''pnpm install prisma''
   \<and> getInstallCommand (Str ''yarn'') '''' = ''yarn add ''
   \<and> getInstallCommand (Str ''pnpm'') '''' = ''pnpm add ''"
  by (simp add: getInstallCommand_def)

text \<open>
  Claim C5, as stated: the dependency string is the concatenation of the table
  entries.  It is not: the entry of the CSS choice and the entries of the backend
  choices are joined by a space, so with no dependency at all the string is one
  space; and a backend choice that is not a key of the table contributes the text
  \<open>undefined\<close>.
\<close>

theorem dependency_string_not_concatenation:
  "allDependencies (Str ''none'') (Some []) \<noteq> specDependencyString ''none'' []
   \<and> allDependencies (Str ''none'') (Some []) = '' ''
   \<and> specDependencyString ''none'' [] = ''''
   \<and> allDependencies (Str ''none'') (Some [''redis'']) = '' undefined''"
  by (simp add: allDependencies_def getCssDependencies_def packageDependencies_def
      objectPrototype_def objectPrototypeKeys_def getBackendServicesDependencies_def
      specDependencyString_def specTableEntry_def)

text \<open>
  Claim C5, amended.  For every CSS choice that does not name a member inherited
  from \<open>Object.prototype\<close> and every list of backend choices among the keys of the
  table, the dependency string is the table entry of the CSS choice, one space, and
  the concatenation of the table entries of the backend choices, where an unknown
  CSS choice and \<open>none\<close> contribute the empty string.
\<close>

theorem dependency_string_joined:
  assumes "css \<notin> set objectPrototypeKeys" and "set backends \<subseteq> set tableKeys"
  shows "allDependencies (Str css) (Some backends) =
           specTableEntry css @ '' '' @ concat (map specTableEntry backends)"
  using assms
  by (simp add: allDependencies_def getCssDependencies_entry
      getBackendServicesDependencies_entries)

theorem dependency_string_joined_witness:
  "''chakraui'' \<notin> set objectPrototypeKeys
   \<and> set [''prisma'', ''supabase''] \<subseteq> set tableKeys
   \<and> allDependencies (Str ''chakraui'') (Some [''prisma'', ''supabase'']) =
       specTableEntry ''chakraui'' @ '' '' @ concat (map specTableEntry [''prisma'', ''supabase''])
   \<and> specTableEntry ''chakraui'' @ '' '' @ concat (map specTableEntry [''prisma'', ''supabase''])
       = ''@chakra-ui/react @emotion/react@^11 @emotion/styled@^11 framer-motion@^6 prisma''"
proof -
  have h1: "''chakraui'' \<notin> set objectPrototypeKeys"
    by (simp add: objectPrototypeKeys_def)
  have h2: "set [''prisma'', ''supabase''] \<subseteq> set tableKeys"
    by (simp add: tableKeys_def)
  have v: "specTableEntry ''chakraui'' @ '' '' @ concat (map specTableEntry [''prisma'', ''supabase''])
       = ''@chakra-ui/react @emotion/react@^11 @emotion/styled@^11 framer-motion@^6 prisma''"
    by (simp add: specTableEntry_def)
  show ?thesis
    using h1 h2 v dependency_string_joined[OF h1 h2] by blast
qed

text \<open>
  Claim C9.  Whatever the answers, the dependency string is two strings joined by
  one space, so it is never empty; \<open>getInstallCommand\<close> therefore never returns
  the \<open>add\<close> command for it, and the command that \<open>installDependencies\<close> runs is
  the package manager followed by \<open>install\<close> and the dependency string.
\<close>

theorem install_verb_always_install:
  "allDependencies css bs =
     jsToString (getCssDependencies css) @ '' '' @ getBackendServicesDependencies bs
   \<and> allDependencies css bs \<noteq> ''''
   \<and> getInstallCommand pm (allDependencies css bs) =
       jsToString pm @ '' install '' @ allDependencies css bs
   \<and> trace (snd (installDependencies w s)) =
       trace s @ [Exec (jsToString (packageManagerValue (answerPackageManager w))
                        @ '' install ''
                        @ allDependencies (cssValue (answerCssStyling w))
                            (map_option (map backendValue) (answerBackendServices w)))]"
  using installDependencies_trace[of w s]
  by (simp add: allDependencies_join getInstallCommand_def installCommandOf_eq)

section \<open>The generator script for Prisma\<close>

lemma packageManager_cases:
  "jsToString (packageManagerValue pm) \<in> {''undefined'', ''pnpm'', ''npm'', ''yarn''}"
  by (cases pm rule: packageManagerValue.cases) simp_all

lemma prisma_not_install: "prismaCommandOf w \<noteq> installCommandOf w"
  by (simp add: prismaCommandOf_def installCommandOf_eq)

lemma prisma_not_clone: "prismaCommandOf w \<noteq> cloneCommand p"
  using packageManager_cases[of "answerPackageManager w"]
  by (auto simp: prismaCommandOf_def cloneCommand_def)

lemma prisma_not_supabase:
  "prismaCommandOf w \<noteq>
     jsToString (packageManagerValue (answerPackageManager w)) @ '' run init:supabase''"
  by (simp add: prismaCommandOf_def)

lemma prisma_not_npx: "prismaCommandOf w \<noteq> ''npx '' @ rest"
  using packageManager_cases[of "answerPackageManager w"]
  by (auto simp: prismaCommandOf_def)

lemma count_execSync:
  "count_list (trace (snd (execSync w cmd s))) (Exec c) =
     count_list (trace s) (Exec c) + (if cmd = c then 1 else 0)"
  by (simp add: execSync_trace)

lemma count_rmSync:
  "count_list (trace (snd (rmSync p s))) (Exec c) = count_list (trace s) (Exec c)"
  by (simp add: rmSync_trace)

lemma count_catchBlock:
  "count_list (trace (snd (catchBlock e s))) (Exec c) = count_list (trace s) (Exec c)"
  by (simp add: catchBlock_trace)

lemma prefix_execSync: "prefix (trace s) (trace (snd (execSync w cmd s)))"
  by (simp add: execSync_trace)

lemma prefix_rmSync: "prefix (trace s) (trace (snd (rmSync p s)))"
  by (simp add: rmSync_trace)

lemma supabase_steps:
  fixes w pm bs
  defines "rest \<equiv>
     [if ''supabase'' \<in> set bs then execSync w (pm @ '' run init:supabase'') else skip,
      if answerIsCreateSupabaseProject w
      then seqs [execSync w ''npx supabase login'',
                 execSync w ''npx supabase projects list'',
                 execSync w (''npx supabase projects create ''
                             @ jsToString (answerProjectName w) @ '' -i'')]
      else skip]"
  assumes "pm = jsToString (packageManagerValue (answerPackageManager w))"
  shows "count_list (trace (snd (seqs rest s))) (Exec (prismaCommandOf w)) =
           count_list (trace s) (Exec (prismaCommandOf w))"
    and "prefix (trace s) (trace (snd (seqs rest s)))"
proof -
  let ?c = "prismaCommandOf w"
  have npx: "count_list (trace (snd (seqs [execSync w (''npx '' @ a), execSync w (''npx '' @ b),
               execSync w (''npx '' @ c)] t))) (Exec ?c) = count_list (trace t) (Exec ?c)"
    for a b c t
    by (rule seqs_keeps) (auto simp: count_execSync prisma_not_npx[symmetric] simp del: append.simps)
  have npx': "prefix (trace t) (trace (snd (seqs [execSync w a, execSync w b, execSync w c] t)))"
    for a b c t
    by (rule seqs_extends) (auto simp: prefix_execSync)
  show "count_list (trace (snd (seqs rest s))) (Exec ?c) = count_list (trace s) (Exec ?c)"
    unfolding rest_def
    apply (rule seqs_keeps)
    using npx[of "''supabase login''" "''supabase projects list''"
              "''supabase projects create '' @ jsToString (answerProjectName w) @ '' -i''"]
          prisma_not_supabase[of w]
    by (auto simp del: seqs.simps simp: count_execSync skip_snd assms(2))
  show "prefix (trace s) (trace (snd (seqs rest s)))"
    unfolding rest_def
    by (rule seqs_extends) (auto simp del: seqs.simps simp: prefix_execSync skip_snd npx')
qed

lemma postInstall_prisma:
  assumes "selectedBackendServices s = Some bs" and "''prisma'' \<in> set bs"
    and "selectedPackageManager s = packageManagerValue (answerPackageManager w)"
  shows "count_list (trace (snd (postInstall w s))) (Exec (prismaCommandOf w)) =
           count_list (trace s) (Exec (prismaCommandOf w)) + 1"
    and "prefix (trace s @ [Exec (prismaCommandOf w)]) (trace (snd (postInstall w s)))"
proof -
  let ?pm = "jsToString (packageManagerValue (answerPackageManager w))"
  let ?rest =
    "[if ''supabase'' \<in> set bs then execSync w (?pm @ '' run init:supabase'') else skip,
      if answerIsCreateSupabaseProject w
      then seqs [execSync w ''npx supabase login'',
                 execSync w ''npx supabase projects list'',
                 execSync w (''npx supabase projects create ''
                             @ jsToString (answerProjectName w) @ '' -i'')]
      else skip]"
  have post: "postInstall w s = seqs (execSync w (prismaCommandOf w) # ?rest) s"
    using assms by (simp add: postInstall_def prismaCommandOf_def Let_def del: seqs.simps)
  obtain st s1 where first: "execSync w (prismaCommandOf w) s = (st, s1)"
    by (cases "execSync w (prismaCommandOf w) s")
  have tr1: "trace s1 = trace s @ [Exec (prismaCommandOf w)]"
    using execSync_trace[of w "prismaCommandOf w" s] first by simp
  have "count_list (trace (snd (postInstall w s))) (Exec (prismaCommandOf w)) =
          count_list (trace s) (Exec (prismaCommandOf w)) + 1
        \<and> prefix (trace s @ [Exec (prismaCommandOf w)]) (trace (snd (postInstall w s)))"
  proof (cases st)
    case Normal
    then have "postInstall w s = seqs ?rest s1"
      using post first by simp
    then show ?thesis
      using supabase_steps[where pm = ?pm and w = w and bs = bs and s = s1] tr1 by simp
  next
    case (Exit n)
    then have "postInstall w s = (Exit n, s1)"
      using post first by simp
    then show ?thesis using tr1 by simp
  next
    case (Thrown e)
    then have "postInstall w s = (Thrown e, s1)"
      using post first by simp
    then show ?thesis using tr1 by simp
  qed
  then show "count_list (trace (snd (postInstall w s))) (Exec (prismaCommandOf w)) =
           count_list (trace s) (Exec (prismaCommandOf w)) + 1"
    and "prefix (trace s @ [Exec (prismaCommandOf w)]) (trace (snd (postInstall w s)))"
    by simp_all
qed

lemma afterInstall_prisma:
  assumes "selectedBackendServices s = Some bs" and "''prisma'' \<in> set bs"
    and "selectedPackageManager s = packageManagerValue (answerPackageManager w)"
  shows "count_list (trace (snd (afterInstall w s))) (Exec (prismaCommandOf w)) =
           count_list (trace s) (Exec (prismaCommandOf w)) + 1"
    and "prefix (trace s @ [Exec (prismaCommandOf w)]) (trace (snd (afterInstall w s)))"
proof -
  let ?c = "Exec (prismaCommandOf w)"
  obtain st s1 where first: "postInstall w s = (st, s1)"
    by (cases "postInstall w s")
  have c1: "count_list (trace s1) ?c = count_list (trace s) ?c + 1"
    and p1: "prefix (trace s @ [?c]) (trace s1)"
    using postInstall_prisma[OF assms] first by simp_all
  have tail_count: "count_list (trace (snd (seqs [cleanUp, success] s1))) ?c = count_list (trace s1) ?c"
    by (rule seqs_keeps) (auto simp: cleanUp_def count_rmSync success_def)
  have tail_prefix: "prefix (trace s1) (trace (snd (seqs [cleanUp, success] s1)))"
    by (rule seqs_extends) (auto simp: cleanUp_def prefix_rmSync success_def)
  have "afterInstall w s = (case st of Normal \<Rightarrow> seqs [cleanUp, success] s1 | r \<Rightarrow> (r, s1))"
    using first by (cases st) (simp_all add: afterInstall_def)
  then have "count_list (trace (snd (afterInstall w s))) ?c = count_list (trace s) ?c + 1
        \<and> prefix (trace s @ [?c]) (trace (snd (afterInstall w s)))"
    using c1 p1 tail_count tail_prefix
    by (cases st) (auto intro: prefix_order.trans)
  then show "count_list (trace (snd (afterInstall w s))) ?c = count_list (trace s) ?c + 1"
    and "prefix (trace s @ [?c]) (trace (snd (afterInstall w s)))"
    by simp_all
qed

lemma tryBlock_afterInstall:
  "tryBlock w s = (case throughInstall w s of (Normal, s') \<Rightarrow> afterInstall w s' | r \<Rightarrow> r)"
proof -
  have "tryBlock w s =
          seqs ([cloneRepo w, (\<lambda>s. chdir (projectPath s) s), installDependencies w]
                @ [postInstall w, cleanUp, success]) s"
    by (simp add: tryBlock_def)
  then show ?thesis
    unfolding seqs_append throughInstall_def afterInstall_def .
qed

lemma throughInstall_normal:
  assumes "fst (throughInstall w s) = Normal"
  shows "trace (snd (throughInstall w s)) =
           trace s @ [Exec (cloneCommand (projectPath s)), Chdir (projectPath s),
                      Exec (installCommandOf w)]"
    and "selectedBackendServices (snd (throughInstall w s)) =
           map_option (map backendValue) (answerBackendServices w)"
    and "selectedPackageManager (snd (throughInstall w s)) =
           packageManagerValue (answerPackageManager w)"
  using assms
  by (auto simp: throughInstall_def cloneRepo_def chdir_def installDependencies_def
      execSync_def emit_def installCommandOf_def Let_def
      split: prod.splits if_splits status.splits)

lemma preflight_no_exec: "Exec c \<notin> set (trace (snd (preflight w)))"
  unfolding preflight_def
proof (rule seqs_preserves[where P = "\<lambda>t. Exec c \<notin> set (trace t)"])
  show "Exec c \<notin> set (trace (initialState w))"
    by (simp add: initialState_def)
next
  fix f and s :: state
  assume "f \<in> set [startUp, validateNodeVersion w, validateAppName w, setProjectPath,
                     validateProjectPath]"
    and "Exec c \<notin> set (trace s)"
  then show "Exec c \<notin> set (trace (snd (f s)))"
    by (auto simp: startUp_def validateNodeVersion_def validateAppName_def
        setProjectPath_def validateProjectPath_def emit_def Let_def
        split: option.splits if_splits)
qed

lemma chdir_trace: "trace (snd (chdir p s)) = trace s @ [Chdir p]"
  by (simp add: chdir_def emit_def)

lemma throughInstall_count:
  "count_list (trace (snd (throughInstall w s))) (Exec (prismaCommandOf w)) =
     count_list (trace s) (Exec (prismaCommandOf w))"
  unfolding throughInstall_def
  by (rule seqs_keeps)
     (auto simp: cloneRepo_def count_execSync chdir_trace installDependencies_trace
        prisma_not_clone[symmetric] prisma_not_install[symmetric])

text \<open>
  Claim C8, as stated: with \<open>prisma\<close> among the selected backend services the
  generator command is executed exactly once.  It is not executed in a run that
  fails before \<open>postInstall\<close>: in the example run \<open>prisma\<close> is selected, the
  install command fails, the handler deletes the project and the generator command
  never runs.
\<close>

theorem prisma_generator_skipped_after_failed_install:
  "answerBackendServices (exampleWorld ''my-app'' []) = Some [Prisma]
   \<and> prismaCommandOf (exampleWorld ''my-app'' []) = ''npm run init:prisma''
   \<and> Exec ''npm install  prisma'' \<in> set (trace (snd (init (exampleWorld ''my-app'' []))))
   \<and> ConsoleError (CommandFailed ''npm install  prisma'')
        \<in> set (trace (snd (init (exampleWorld ''my-app'' []))))
   \<and> count_list (trace (snd (init (exampleWorld ''my-app'' []))))
        (Exec ''npm run init:prisma'') = 0"
  by code_simp

text \<open>
  Claim C8, amended.  With \<open>prisma\<close> among the selected backend services, in a run
  that gets through the installation of the dependencies the command
  \<open><packageManager> run init:prisma\<close> is executed exactly once in the whole run,
  and it is the child process started right after the install command returned; in
  a run that stops at the clone, the change of directory or the installation it is
  not executed at all.
\<close>

theorem prisma_generator_once:
  assumes "fst (preflight w) = Normal"
    and "answerBackendServices w = Some bs" and "Prisma \<in> set bs"
  shows "(fst (throughInstall w (snd (preflight w))) = Normal \<longrightarrow>
            count_list (trace (snd (init w))) (Exec (prismaCommandOf w)) = 1
            \<and> (\<exists>before after.
                  trace (snd (init w)) =
                    before @ [Exec (installCommandOf w), Exec (prismaCommandOf w)] @ after))
       \<and> (fst (throughInstall w (snd (preflight w))) \<noteq> Normal \<longrightarrow>
            count_list (trace (snd (init w))) (Exec (prismaCommandOf w)) = 0)"
proof -
  let ?c = "Exec (prismaCommandOf w)"
  obtain s0 where s0: "preflight w = (Normal, s0)"
    using assms(1) by (cases "preflight w") simp
  obtain st3 s3 where s3: "throughInstall w s0 = (st3, s3)"
    by (cases "throughInstall w s0")
  have no0: "count_list (trace s0) ?c = 0"
    using preflight_no_exec[of "prismaCommandOf w" w] s0 by (simp add: count_list_0_iff)
  have c3: "count_list (trace s3) ?c = 0"
    using throughInstall_count[of w s0] s3 no0 by simp
  show ?thesis
  proof (cases "st3 = Normal")
    case False
    have tb: "tryBlock w s0 = (st3, s3)"
      using False s3 by (cases st3) (simp_all add: tryBlock_afterInstall)
    have "count_list (trace (snd (init w))) ?c = 0"
    proof (cases st3)
      case Normal
      with False show ?thesis by simp
    next
      case (Exit n)
      then have "init w = (Exit n, s3)"
        using s0 tb by (simp add: init_preflight tryCatch_def)
      then show ?thesis using c3 by simp
    next
      case (Thrown e)
      then have "init w = catchBlock e s3"
        using s0 tb by (simp add: init_thrown)
      then show ?thesis
        using count_catchBlock[of e s3 "prismaCommandOf w"] c3 by simp
    qed
    then show ?thesis
      using False s0 s3 by simp
  next
    case True
    have tr3: "trace s3 = trace s0 @ [Exec (cloneCommand (projectPath s0)), Chdir (projectPath s0),
                      Exec (installCommandOf w)]"
      and sel: "selectedBackendServices s3 = Some (map backendValue bs)"
      and pm: "selectedPackageManager s3 = packageManagerValue (answerPackageManager w)"
      using throughInstall_normal[of w s0] s3 True assms(2) by simp_all
    have mem: "''prisma'' \<in> set (map backendValue bs)"
      using assms(3) by force
    obtain st s4 where s4: "afterInstall w s3 = (st, s4)"
      by (cases "afterInstall w s3")
    have c4: "count_list (trace s4) ?c = 1"
      and p4: "prefix (trace s3 @ [?c]) (trace s4)"
      using afterInstall_prisma[OF sel mem pm] s4 c3 by simp_all
    have tb: "tryBlock w s0 = (st, s4)"
      using True by (simp add: tryBlock_afterInstall s3 s4)
    obtain s5 where s5: "init w = (fst (init w), s5)"
      and c5: "count_list (trace s5) ?c = count_list (trace s4) ?c"
      and p5: "prefix (trace s4) (trace s5)"
    proof (cases st)
      case Normal
      then have "init w = (Normal, s4)"
        using s0 tb by (simp add: init_preflight tryCatch_def)
      then show ?thesis using that[of s4] by simp
    next
      case (Exit n)
      then have "init w = (Exit n, s4)"
        using s0 tb by (simp add: init_preflight tryCatch_def)
      then show ?thesis using that[of s4] by simp
    next
      case (Thrown e)
      then have "init w = catchBlock e s4"
        using s0 tb by (simp add: init_thrown)
      then show ?thesis
        using that[of "snd (catchBlock e s4)"] count_catchBlock[of e s4 "prismaCommandOf w"]
          catchBlock_trace[of e s4]
        by simp
    qed
    have fin: "snd (init w) = s5"
      using s5 by (metis snd_conv)
    have "prefix (trace s3 @ [?c]) (trace s5)"
      using p4 p5 by (rule prefix_order.trans)
    then obtain after where "trace s5 = (trace s3 @ [?c]) @ after"
      by (auto simp: prefix_def)
    then have "trace s5 =
        (trace s0 @ [Exec (cloneCommand (projectPath s0)), Chdir (projectPath s0)])
        @ [Exec (installCommandOf w), ?c] @ after"
      by (simp add: tr3)
    then have "\<exists>before after.
        trace (snd (init w)) = before @ [Exec (installCommandOf w), ?c] @ after"
      using fin by metis
    then show ?thesis
      using c4 c5 fin True s0 s3 by simp
  qed
qed

theorem prisma_generator_once_witness:
  "fst (preflight (exampleWorld ''my-app'' [''npm install  prisma''])) = Normal
   \<and> answerBackendServices (exampleWorld ''my-app'' [''npm install  prisma'']) = Some [Prisma]
   \<and> Prisma \<in> set [Prisma]
   \<and> fst (throughInstall (exampleWorld ''my-app'' [''npm install  prisma''])
            (snd (preflight (exampleWorld ''my-app'' [''npm install  prisma''])))) = Normal
   \<and> prismaCommandOf (exampleWorld ''my-app'' [''npm install  prisma'']) = ''npm run init:prisma''
   \<and> count_list (trace (snd (init (exampleWorld ''my-app'' [''npm install  prisma'']))))
        (Exec ''npm run init:prisma'') = 1
   \<and> fst (preflight (exampleWorld ''my-app'' [])) = Normal
   \<and> answerBackendServices (exampleWorld ''my-app'' []) = Some [Prisma]
   \<and> fst (throughInstall (exampleWorld ''my-app'' [])
            (snd (preflight (exampleWorld ''my-app'' []))))
       = Thrown (CommandFailed ''npm install  prisma'')
   \<and> prismaCommandOf (exampleWorld ''my-app'' []) = ''npm run init:prisma''
   \<and> count_list (trace (snd (init (exampleWorld ''my-app'' []))))
        (Exec ''npm run init:prisma'') = 0"
proof -
  let ?w = "exampleWorld ''my-app'' [''npm install  prisma'']"
  let ?v = "exampleWorld ''my-app'' []"
  have h1: "fst (preflight ?w) = Normal" by code_simp
  have h2: "fst (throughInstall ?w (snd (preflight ?w))) = Normal" by code_simp
  have h3: "answerBackendServices ?w = Some [Prisma]" by code_simp
  have h4: "Prisma \<in> set [Prisma]" by simp
  have h5: "prismaCommandOf ?w = ''npm run init:prisma''" by code_simp
  have g1: "fst (preflight ?v) = Normal" by code_simp
  have g2: "fst (throughInstall ?v (snd (preflight ?v)))
              = Thrown (CommandFailed ''npm install  prisma'')" by code_simp
  have g3: "answerBackendServices ?v = Some [Prisma]" by code_simp
  have g5: "prismaCommandOf ?v = ''npm run init:prisma''" by code_simp
  show ?thesis
    using h1 h2 h3 h4 h5 g1 g2 g3 g5 prisma_generator_once[OF h1 h3 h4] prisma_generator_once[OF g1 g3 h4] by simp
qed

end
